theory Spec2Isabelle
  imports Main
begin

section \<open>Values that cross the bridge\<close>

text \<open>
  The JavaScript layer, the Swift module and the Kotlin stub exchange dynamically typed
  values: booleans, strings, dictionaries (\<^verbatim>\<open>[String: Any]\<close> in Swift, \<^verbatim>\<open>mapOf\<close> in
  Kotlin, object literals in TypeScript) and, on the failure path, thrown values.
  \<open>JError m\<close> is an instance of \<^verbatim>\<open>Error\<close> whose \<^verbatim>\<open>message\<close> is \<open>m\<close>; any other thrown
  value is not an \<^verbatim>\<open>Error\<close>. A dictionary is a list of its entries in the order the
  source writes them; it is read through \<open>map_of\<close> only. Numbers never occur in this
  package and are left out.
\<close>

datatype js_value =
    JUndefined
  | JNull
  | JBool bool
  | JStr string
  | JObj "(string \<times> js_value) list"
  | JError string

fun js_typeof :: "js_value \<Rightarrow> string" where
  "js_typeof JUndefined = ''undefined''"
| "js_typeof JNull = ''object''"
| "js_typeof (JBool b) = ''boolean''"
| "js_typeof (JStr t) = ''string''"
| "js_typeof (JObj kvs) = ''object''"
| "js_typeof (JError m) = ''object''"

fun js_truthy :: "js_value \<Rightarrow> bool" where
  "js_truthy JUndefined = False"
| "js_truthy JNull = False"
| "js_truthy (JBool b) = b"
| "js_truthy (JStr t) = (t \<noteq> [])"
| "js_truthy (JObj kvs) = True"
| "js_truthy (JError m) = True"

text \<open>\<^verbatim>\<open>error instanceof Error ? error.message : fallback\<close>\<close>

fun error_message :: "js_value \<Rightarrow> string \<Rightarrow> string" where
  "error_message (JError m) fallback = m"
| "error_message v fallback = fallback"

text \<open>
  Errors raised on the native side: \<^verbatim>\<open>NSError(domain:code:userInfo:)\<close> with its
  localized description, an error thrown by \<^verbatim>\<open>session.respond(to:)\<close> (only its
  \<^verbatim>\<open>localizedDescription\<close> is ever read), and a Kotlin \<^verbatim>\<open>Exception(message)\<close>.
\<close>

datatype native_error =
    NSError string int string
  | RespondError string
  | KotlinException string

section \<open>The platform runtime\<close>

text \<open>
  \<^verbatim>\<open>SystemLanguageModel.default.availability\<close>: available, unavailable with a reason
  (the reason is carried as \<^verbatim>\<open>String(describing: reason)\<close>), or a case the module does
  not know (\<^verbatim>\<open>@unknown default\<close>).
\<close>

datatype availability = Available | Unavailable string | UnknownCase

text \<open>
  A \<^verbatim>\<open>LanguageModelSession\<close> is opaque; what the module can observe of it is the
  sequence of prompts it has been sent through \<^verbatim>\<open>respond(to:)\<close>, oldest first.
  \<^verbatim>\<open>LanguageModelSession()\<close> is the handle with no turns.
\<close>

type_synonym LanguageModelSession = "string list"

text \<open>
  Everything the module asks of its surroundings during one call. None of it is code of
  the package, so every theorem below holds for an arbitrary platform:
  \<^item> \<open>canImport_FoundationModels\<close>: \<^verbatim>\<open>#if canImport(FoundationModels)\<close>;
  \<^item> \<open>available_OS26\<close>: \<^verbatim>\<open>#available(iOS 26.0, macOS 26.0, *)\<close>;
  \<^item> \<open>model_isAvailable\<close>, \<open>model_availability\<close>: the two properties of
    \<^verbatim>\<open>SystemLanguageModel.default\<close> the module reads;
  \<^item> \<open>respond_to session prompt\<close>: what \<^verbatim>\<open>session.respond(to: prompt)\<close> does on a handle
    with the given earlier turns: \<open>Inl\<close> the localized description of the error it
    throws, \<open>Inr\<close> the content of its response;
  \<^item> \<open>uuidString\<close>: the value of \<^verbatim>\<open>UUID().uuidString\<close>;
  \<^item> \<open>rejection\<close>: the value with which the bridge rejects the JavaScript promise when
    the native function throws;
  \<^item> \<open>bridge_fault\<close>: \<open>Some e\<close> when the bridge itself rejects a call with \<open>e\<close> before the
    native function runs.
\<close>

record platform =
  canImport_FoundationModels :: bool
  available_OS26 :: bool
  model_isAvailable :: bool
  model_availability :: availability
  respond_to :: "LanguageModelSession \<Rightarrow> string \<Rightarrow> string + string"
  uuidString :: string
  rejection :: "native_error \<Rightarrow> js_value"
  bridge_fault :: "js_value option"

text \<open>
  The mutable state: \<^verbatim>\<open>SessionStore.shared.sessions\<close>, and the names of the native
  functions the JavaScript layer has invoked so far (the bridge appends to it; the native
  functions never read or write it).
\<close>

record store =
  sessions :: "string \<rightharpoonup> LanguageModelSession"
  native_calls :: "string list"

definition empty_store :: store where
  "empty_store = \<lparr>sessions = Map.empty, native_calls = []\<rparr>"

type_synonym native_result = "(native_error + js_value) \<times> store"

text \<open>The two guards that enclose every use of the framework in the Swift module.\<close>

definition framework_present :: "platform \<Rightarrow> bool" where
  "framework_present d = (canImport_FoundationModels d \<and> available_OS26 d)"

text \<open>\<^verbatim>\<open>session.respond(to: prompt)\<close>: the outcome, and the handle after the turn.\<close>

definition session_respond ::
  "platform \<Rightarrow> LanguageModelSession \<Rightarrow> string \<Rightarrow> (string + string) \<times> LanguageModelSession" where
  "session_respond d session prompt = (respond_to d session prompt, session @ [prompt])"

section \<open>The Swift module\<close>

text \<open>
  The seven \<^verbatim>\<open>AsyncFunction\<close>s of the Swift \<^verbatim>\<open>AppleIntelligenceModule\<close>, each with its
  \<^verbatim>\<open>#if canImport\<close> and \<^verbatim>\<open>#available\<close> guards and the fall-through after them. A native
  function returns \<open>Inl\<close> the error it throws or \<open>Inr\<close> its value as JavaScript receives it
  (\<^verbatim>\<open>Void\<close> as \<open>JUndefined\<close>), together with the store after the call.
\<close>

definition swift_isAvailable :: "platform \<Rightarrow> store \<Rightarrow> native_result" where
  "swift_isAvailable d s =
     (if framework_present d then (Inr (JBool (model_isAvailable d)), s)
      else (Inr (JBool False), s))"

definition swift_getAvailabilityStatus :: "platform \<Rightarrow> store \<Rightarrow> native_result" where
  "swift_getAvailabilityStatus d s =
     (if framework_present d then
        (case model_availability d of
           Available \<Rightarrow>
             (Inr (JObj [(''status'', JStr ''available''),
                         (''isAvailable'', JBool True),
                         (''message'', JStr ''Apple Intelligence is ready to use'')]), s)
         | Unavailable reasonString \<Rightarrow>
             (Inr (JObj [(''status'', JStr ''unavailable''),
                         (''isAvailable'', JBool False),
                         (''reason'', JStr reasonString),
                         (''message'', JStr (''Apple Intelligence is not available: '' @ reasonString))]), s)
         | UnknownCase \<Rightarrow>
             (Inr (JObj [(''status'', JStr ''unknown''),
                         (''isAvailable'', JBool False),
                         (''message'', JStr ''Unknown availability status'')]), s))
      else
        (Inr (JObj [(''status'', JStr ''unsupported''),
                    (''isAvailable'', JBool False),
                    (''message'', JStr ''This iOS version does not support Foundation Models (requires iOS 26+)'')]), s))"

definition swift_generateResponse :: "string \<Rightarrow> platform \<Rightarrow> store \<Rightarrow> native_result" where
  "swift_generateResponse prompt d s =
     (if framework_present d then
        (if \<not> model_isAvailable d then
           (Inr (JObj [(''success'', JBool False),
                       (''error'', JStr ''Apple Intelligence is not available on this device'')]), s)
         else
           (case session_respond d [] prompt of
              (Inr content, session) \<Rightarrow>
                (Inr (JObj [(''success'', JBool True), (''response'', JStr content)]), s)
            | (Inl localizedDescription, session) \<Rightarrow>
                (Inr (JObj [(''success'', JBool False), (''error'', JStr localizedDescription)]), s)))
      else
        (Inr (JObj [(''success'', JBool False),
                    (''error'', JStr ''Foundation Models framework is not available (requires iOS 26+)'')]), s))"

definition swift_createSession :: "string option \<Rightarrow> platform \<Rightarrow> store \<Rightarrow> native_result" where
  "swift_createSession systemPrompt d s =
     (if framework_present d then
        (if \<not> model_isAvailable d then
           (Inl (NSError ''AppleIntelligence'' 1 ''Apple Intelligence is not available''), s)
         else
           (let sessionId = uuidString d; session = [] in
            (case systemPrompt of
               None \<Rightarrow> (Inr (JStr sessionId), s\<lparr>sessions := (sessions s)(sessionId \<mapsto> session)\<rparr>)
             | Some p \<Rightarrow>
                 (if p = [] then
                    (Inr (JStr sessionId), s\<lparr>sessions := (sessions s)(sessionId \<mapsto> session)\<rparr>)
                  else
                    (case session_respond d session (''System: '' @ p) of
                       (Inl localizedDescription, session') \<Rightarrow>
                         (Inl (RespondError localizedDescription), s)
                     | (Inr content, session') \<Rightarrow>
                         (Inr (JStr sessionId),
                          s\<lparr>sessions := (sessions s)(sessionId \<mapsto> session')\<rparr>))))))
      else (Inl (NSError ''AppleIntelligence'' 2 ''Foundation Models not available''), s))"

definition swift_sendSessionMessage :: "string \<Rightarrow> string \<Rightarrow> platform \<Rightarrow> store \<Rightarrow> native_result" where
  "swift_sendSessionMessage sessionId message d s =
     (if framework_present d then
        (case sessions s sessionId of
           None \<Rightarrow>
             (Inr (JObj [(''success'', JBool False),
                         (''error'', JStr ''Session not found. Create a new session first.'')]), s)
         | Some session \<Rightarrow>
             (case session_respond d session message of
                (Inr content, session') \<Rightarrow>
                  (Inr (JObj [(''success'', JBool True), (''response'', JStr content)]),
                   s\<lparr>sessions := (sessions s)(sessionId \<mapsto> session')\<rparr>)
              | (Inl localizedDescription, session') \<Rightarrow>
                  (Inr (JObj [(''success'', JBool False), (''error'', JStr localizedDescription)]),
                   s\<lparr>sessions := (sessions s)(sessionId \<mapsto> session')\<rparr>)))
      else
        (Inr (JObj [(''success'', JBool False),
                    (''error'', JStr ''Foundation Models not available'')]), s))"

definition swift_resetSession :: "string \<Rightarrow> platform \<Rightarrow> store \<Rightarrow> native_result" where
  "swift_resetSession sessionId d s =
     (if framework_present d then
        (if sessions s sessionId \<noteq> None then
           (Inr JUndefined, s\<lparr>sessions := (sessions s)(sessionId \<mapsto> [])\<rparr>)
         else (Inr JUndefined, s))
      else (Inr JUndefined, s))"

definition swift_endSession :: "string \<Rightarrow> platform \<Rightarrow> store \<Rightarrow> native_result" where
  "swift_endSession sessionId d s =
     (if framework_present d then
        (Inr JUndefined, s\<lparr>sessions := (sessions s)(sessionId := None)\<rparr>)
      else (Inr JUndefined, s))"

section \<open>The Kotlin stub (android/src/main/java/expo/modules/appleintelligence/AppleIntelligenceModule.kt)\<close>

definition kotlin_isAvailable :: "platform \<Rightarrow> store \<Rightarrow> native_result" where
  "kotlin_isAvailable d s = (Inr (JBool False), s)"

definition kotlin_getAvailabilityStatus :: "platform \<Rightarrow> store \<Rightarrow> native_result" where
  "kotlin_getAvailabilityStatus d s =
     (Inr (JObj [(''status'', JStr ''unsupported''),
                 (''isAvailable'', JBool False),
                 (''message'', JStr ''Apple Intelligence is only available on iOS devices'')]), s)"

definition kotlin_generateResponse :: "string \<Rightarrow> platform \<Rightarrow> store \<Rightarrow> native_result" where
  "kotlin_generateResponse prompt d s =
     (Inr (JObj [(''success'', JBool False),
                 (''error'', JStr ''Apple Intelligence is only available on iOS devices'')]), s)"

definition kotlin_createSession :: "string option \<Rightarrow> platform \<Rightarrow> store \<Rightarrow> native_result" where
  "kotlin_createSession systemPrompt d s =
     (Inl (KotlinException ''Apple Intelligence is only available on iOS devices''), s)"

definition kotlin_sendSessionMessage :: "string \<Rightarrow> string \<Rightarrow> platform \<Rightarrow> store \<Rightarrow> native_result" where
  "kotlin_sendSessionMessage sessionId message d s =
     (Inr (JObj [(''success'', JBool False),
                 (''error'', JStr ''Apple Intelligence is only available on iOS devices'')]), s)"

definition kotlin_resetSession :: "string \<Rightarrow> platform \<Rightarrow> store \<Rightarrow> native_result" where
  "kotlin_resetSession sessionId d s = (Inr JUndefined, s)"

section \<open>Module definitions\<close>

text \<open>
  A native module is what its \<^verbatim>\<open>ModuleDefinition\<close> registers: a table from the name given
  to \<^verbatim>\<open>AsyncFunction\<close> to the closure, tagged with the closure's parameter list (none, one
  \<^verbatim>\<open>String\<close>, one \<^verbatim>\<open>String?\<close>, two \<^verbatim>\<open>String\<close>s).
\<close>

datatype handler =
    Fn0 "platform \<Rightarrow> store \<Rightarrow> native_result"
  | Fn1 "string \<Rightarrow> platform \<Rightarrow> store \<Rightarrow> native_result"
  | Fn1opt "string option \<Rightarrow> platform \<Rightarrow> store \<Rightarrow> native_result"
  | Fn2 "string \<Rightarrow> string \<Rightarrow> platform \<Rightarrow> store \<Rightarrow> native_result"

type_synonym module_definition = "(string \<times> handler) list"

definition swift_definition :: module_definition where
  "swift_definition =
     [(''isAvailable'', Fn0 swift_isAvailable),
      (''getAvailabilityStatus'', Fn0 swift_getAvailabilityStatus),
      (''generateResponse'', Fn1 swift_generateResponse),
      (''createSession'', Fn1opt swift_createSession),
      (''sendSessionMessage'', Fn2 swift_sendSessionMessage),
      (''resetSession'', Fn1 swift_resetSession),
      (''endSession'', Fn1 swift_endSession)]"

definition kotlin_definition :: module_definition where
  "kotlin_definition =
     [(''isAvailable'', Fn0 kotlin_isAvailable),
      (''getAvailabilityStatus'', Fn0 kotlin_getAvailabilityStatus),
      (''generateResponse'', Fn1 kotlin_generateResponse),
      (''createSession'', Fn1opt kotlin_createSession),
      (''sendSessionMessage'', Fn2 kotlin_sendSessionMessage),
      (''resetSession'', Fn1 kotlin_resetSession)]"

section \<open>The bridge\<close>

text \<open>
  The bridge converts the JavaScript arguments to the parameter types of the closure; a
  call whose arguments do not fit is rejected without running the closure. An absent
  string (\<^verbatim>\<open>undefined\<close> or \<^verbatim>\<open>null\<close>) fits a \<^verbatim>\<open>String?\<close> parameter only.
\<close>

fun convert_call :: "handler \<Rightarrow> js_value list \<Rightarrow> (platform \<Rightarrow> store \<Rightarrow> native_result) option" where
  "convert_call (Fn0 f) [] = Some f"
| "convert_call (Fn1 f) [JStr a] = Some (f a)"
| "convert_call (Fn1opt f) [JUndefined] = Some (f None)"
| "convert_call (Fn1opt f) [JNull] = Some (f None)"
| "convert_call (Fn1opt f) [JStr a] = Some (f (Some a))"
| "convert_call (Fn2 f) [JStr a, JStr b] = Some (f a b)"
| "convert_call h args = None"

text \<open>
  \<^verbatim>\<open>AppleIntelligenceModule.name(args)\<close> as the JavaScript layer sees it. The module object
  may be nullish (\<open>None\<close>) or lack the function: both throw a \<^verbatim>\<open>TypeError\<close> (its wording
  belongs to the JavaScript engine; nothing below depends on it). Otherwise the call
  reaches the bridge, which records it and runs the closure; a native throw becomes a
  rejection.
\<close>

definition call_native ::
  "module_definition option \<Rightarrow> string \<Rightarrow> js_value list \<Rightarrow> platform \<Rightarrow> store
   \<Rightarrow> (js_value + js_value) \<times> store" where
  "call_native m name args d s =
     (case m of
        None \<Rightarrow> (Inl (JError ''TypeError: cannot read a property of a nullish value''), s)
      | Some defn \<Rightarrow>
          (case map_of defn name of
             None \<Rightarrow> (Inl (JError ''TypeError: not a function''), s)
           | Some h \<Rightarrow>
               (case bridge_fault d of
                  Some e \<Rightarrow> (Inl e, s)
                | None \<Rightarrow>
                    (case convert_call h args of
                       None \<Rightarrow> (Inl (JError ''The arguments do not fit the native function''), s)
                     | Some f \<Rightarrow>
                         (case f d (s\<lparr>native_calls := native_calls s @ [name]\<rparr>) of
                            (Inl e, s') \<Rightarrow> (Inl (rejection d e), s')
                          | (Inr v, s') \<Rightarrow> (Inr v, s'))))))"

section \<open>The JavaScript layer (src/AppleIntelligenceModule.ts, src/AppleIntelligence.ts, src/index.ts)\<close>

text \<open>
  The module-level variables of \<^verbatim>\<open>AppleIntelligence.ts\<close>: the imported module object and
  the two variables set while the file is evaluated.
\<close>

record js_module =
  AppleIntelligenceModule :: "module_definition option"
  isModuleAvailable :: bool
  moduleLoadError :: "string option"

text \<open>\<^verbatim>\<open>typeof m?.name === 'function'\<close>\<close>

definition is_function :: "module_definition option \<Rightarrow> string \<Rightarrow> bool" where
  "is_function m name = (case m of None \<Rightarrow> False | Some defn \<Rightarrow> map_of defn name \<noteq> None)"

text \<open>
  Evaluating \<^verbatim>\<open>AppleIntelligenceModule.ts\<close>: the exported constant is the value of
  \<^verbatim>\<open>requireNativeModule('AppleIntelligence')\<close>, a function of expo-modules-core whose
  outcome is the parameter: \<open>Inl e\<close> when it throws \<open>e\<close> (as the comment above the call says
  it does when the native module is not available), \<open>Inr m\<close> when it returns \<open>m\<close>. The call
  stands at the top level of the file, outside any \<^verbatim>\<open>try\<close>, so its exception is the
  exception of the file's evaluation.
\<close>

definition load_AppleIntelligenceModule ::
  "js_value + module_definition option \<Rightarrow> js_value + module_definition option" where
  "load_AppleIntelligenceModule required = (case required of Inl e \<Rightarrow> Inl e | Inr m \<Rightarrow> Inr m)"

text \<open>
  Evaluating \<^verbatim>\<open>AppleIntelligence.ts\<close>. Its first line imports \<^verbatim>\<open>AppleIntelligenceModule.ts\<close>,
  which is evaluated first; an exception there ends the evaluation of this file before
  any of its statements run. Otherwise the \<^verbatim>\<open>try\<close> block (lines 53 to 59) sets
  \<open>isModuleAvailable\<close>; the expression in it cannot throw on a module object, so
  \<open>moduleLoadError\<close> keeps its initial \<^verbatim>\<open>null\<close>.
\<close>

definition load_AppleIntelligence ::
  "js_value + module_definition option \<Rightarrow> js_value + js_module" where
  "load_AppleIntelligence required =
     (case load_AppleIntelligenceModule required of
        Inl e \<Rightarrow> Inl e
      | Inr m \<Rightarrow>
          Inr \<lparr>AppleIntelligenceModule = m,
               isModuleAvailable = is_function m ''isAvailable'',
               moduleLoadError = None\<rparr>)"

text \<open>\<^verbatim>\<open>index.ts\<close> re-exports \<^verbatim>\<open>AppleIntelligence.ts\<close>: importing the package evaluates it.\<close>

definition load_index :: "js_value + module_definition option \<Rightarrow> js_value + js_module" where
  "load_index required = load_AppleIntelligence required"

text \<open>
  The exported asynchronous functions. The result is \<open>Inl e\<close> when the promise rejects
  with \<open>e\<close> and \<open>Inr v\<close> when it resolves to \<open>v\<close>.
\<close>

definition isAvailable :: "js_module \<Rightarrow> platform \<Rightarrow> store \<Rightarrow> (js_value + js_value) \<times> store" where
  "isAvailable js d s =
     (if \<not> isModuleAvailable js then (Inr (JBool False), s)
      else
        (case call_native (AppleIntelligenceModule js) ''isAvailable'' [] d s of
           (Inr v, s') \<Rightarrow> (Inr v, s')
         | (Inl e, s') \<Rightarrow> (Inr (JBool False), s')))"

definition getAvailabilityStatus ::
  "js_module \<Rightarrow> platform \<Rightarrow> store \<Rightarrow> (js_value + js_value) \<times> store" where
  "getAvailabilityStatus js d s =
     (if \<not> isModuleAvailable js then
        (Inr (JObj [(''status'', JStr ''unsupported''),
                    (''isAvailable'', JBool False),
                    (''message'', JStr
                       (case moduleLoadError js of
                          None \<Rightarrow> ''Apple Intelligence is only available on iOS 26+ devices''
                        | Some err \<Rightarrow>
                            (if err \<noteq> [] then ''Native module failed to load: '' @ err
                             else ''Apple Intelligence is only available on iOS 26+ devices'')))]), s)
      else
        (case call_native (AppleIntelligenceModule js) ''getAvailabilityStatus'' [] d s of
           (Inr v, s') \<Rightarrow> (Inr v, s')
         | (Inl e, s') \<Rightarrow>
             (Inr (JObj [(''status'', JStr ''unknown''),
                         (''isAvailable'', JBool False),
                         (''message'', JStr (''Error checking availability: ''
                                             @ error_message e ''Unknown error''))]), s')))"

definition generateResponse ::
  "js_module \<Rightarrow> js_value \<Rightarrow> platform \<Rightarrow> store \<Rightarrow> (js_value + js_value) \<times> store" where
  "generateResponse js prompt d s =
     (if \<not> isModuleAvailable js then
        (Inr (JObj [(''success'', JBool False),
                    (''error'', JStr ''Apple Intelligence is not available on this device'')]), s)
      else if \<not> js_truthy prompt \<or> js_typeof prompt \<noteq> ''string'' then
        (Inr (JObj [(''success'', JBool False),
                    (''error'', JStr ''Prompt must be a non-empty string'')]), s)
      else
        (case call_native (AppleIntelligenceModule js) ''generateResponse'' [prompt] d s of
           (Inr v, s') \<Rightarrow> (Inr v, s')
         | (Inl e, s') \<Rightarrow>
             (Inr (JObj [(''success'', JBool False),
                         (''error'', JStr (error_message e ''Unknown error generating response''))]), s')))"

text \<open>
  \<^verbatim>\<open>createSession(options?)\<close>. The \<^verbatim>\<open>Session\<close> object it resolves to holds the identifier;
  its two closures are the functions \<open>sendMessage\<close> and \<open>reset\<close> below, applied to it.
\<close>

record SessionOptions =
  systemPrompt :: "string option"

datatype Session = Session js_value

fun session_id :: "Session \<Rightarrow> js_value" where
  "session_id (Session sessionId) = sessionId"

definition options_systemPrompt :: "SessionOptions option \<Rightarrow> js_value" where
  "options_systemPrompt options =
     (case options of
        None \<Rightarrow> JUndefined
      | Some opts \<Rightarrow> (case systemPrompt opts of None \<Rightarrow> JUndefined | Some p \<Rightarrow> JStr p))"

definition createSession ::
  "js_module \<Rightarrow> SessionOptions option \<Rightarrow> platform \<Rightarrow> store \<Rightarrow> (js_value + Session) \<times> store" where
  "createSession js options d s =
     (if \<not> isModuleAvailable js then
        (Inl (JError ''Apple Intelligence is not available on this device''), s)
      else
        (case call_native (AppleIntelligenceModule js) ''createSession''
                [options_systemPrompt options] d s of
           (Inr sessionId, s') \<Rightarrow> (Inr (Session sessionId), s')
         | (Inl e, s') \<Rightarrow>
             (Inl (JError (''Failed to create session: '' @ error_message e ''Unknown error'')), s')))"

definition sendMessage ::
  "js_module \<Rightarrow> Session \<Rightarrow> string \<Rightarrow> platform \<Rightarrow> store \<Rightarrow> (js_value + js_value) \<times> store" where
  "sendMessage js session message d s =
     call_native (AppleIntelligenceModule js) ''sendSessionMessage''
       [session_id session, JStr message] d s"

definition reset ::
  "js_module \<Rightarrow> Session \<Rightarrow> platform \<Rightarrow> store \<Rightarrow> (js_value + js_value) \<times> store" where
  "reset js session d s =
     call_native (AppleIntelligenceModule js) ''resetSession'' [session_id session] d s"

text \<open>
  What an application gets from \<^verbatim>\<open>import { isAvailable } from 'expo-apple-intelligence'\<close>
  followed by \<^verbatim>\<open>await isAvailable()\<close>: the package is evaluated, then the function runs.
\<close>

definition imported_isAvailable ::
  "js_value + module_definition option \<Rightarrow> platform \<Rightarrow> store \<Rightarrow> (js_value + js_value) \<times> store" where
  "imported_isAvailable required d s =
     (case load_index required of
        Inl e \<Rightarrow> (Inl e, s)
      | Inr js \<Rightarrow> isAvailable js d s)"

section \<open>Reachable registries and example platforms\<close>

text \<open>
  \<^verbatim>\<open>SessionStore\<close> exists only where the framework does, and only \<open>swift_createSession\<close>
  adds to it, inside both guards. So on a platform without the framework the registry
  is empty: that is the invariant of the stores the module can reach.
\<close>

definition registry_reachable :: "platform \<Rightarrow> store \<Rightarrow> bool" where
  "registry_reachable d s = (framework_present d \<or> sessions s = Map.empty)"

text \<open>
  Three platforms for the examples: a device whose model is ready, one whose model is
  not, and one whose operating system predates the framework.
\<close>

definition ready_platform :: platform where
  "ready_platform =
     \<lparr>canImport_FoundationModels = True,
      available_OS26 = True,
      model_isAvailable = True,
      model_availability = Available,
      respond_to = (\<lambda>session prompt.
         if prompt = ''System: refuse'' then Inl ''The request was refused''
         else Inr (''echo: '' @ prompt)),
      uuidString = ''6F9619FF-8B86-D011-B42D-00C04FC964FF'',
      rejection = (\<lambda>e. case e of
         NSError domain code description \<Rightarrow> JError description
       | RespondError description \<Rightarrow> JError description
       | KotlinException message \<Rightarrow> JError message),
      bridge_fault = None\<rparr>"

definition not_ready_platform :: platform where
  "not_ready_platform =
     ready_platform\<lparr>model_isAvailable := False, model_availability := Unavailable ''modelNotReady''\<rparr>"

definition old_os_platform :: platform where
  "old_os_platform = not_ready_platform\<lparr>available_OS26 := False\<rparr>"

text \<open>The JavaScript layer as loaded over the Swift module and over the Kotlin stub.\<close>

definition ios_module :: js_module where
  "ios_module =
     \<lparr>AppleIntelligenceModule = Some swift_definition, isModuleAvailable = True,
      moduleLoadError = None\<rparr>"

definition android_module :: js_module where
  "android_module =
     \<lparr>AppleIntelligenceModule = Some kotlin_definition, isModuleAvailable = True,
      moduleLoadError = None\<rparr>"

definition android_platform :: platform where
  "android_platform = old_os_platform\<lparr>canImport_FoundationModels := False\<rparr>"

text \<open>
  The JavaScript layer when \<^verbatim>\<open>requireNativeModule\<close> returns without a usable module
  object: the test on line 55 fails and \<open>isModuleAvailable\<close> stays false.
\<close>

definition unloaded_module :: js_module where
  "unloaded_module =
     \<lparr>AppleIntelligenceModule = None, isModuleAvailable = False, moduleLoadError = None\<rparr>"

section \<open>The properties of results\<close>

text \<open>
  An \<^verbatim>\<open>AvailabilityStatus\<close> is consistent when it is a dictionary whose \<^verbatim>\<open>status\<close> is a
  string, whose \<^verbatim>\<open>isAvailable\<close> is a boolean, and the boolean is true exactly when the
  string is \<^verbatim>\<open>available\<close>.
\<close>

definition status_consistent :: "js_value \<Rightarrow> bool" where
  "status_consistent v =
     (case v of
        JObj r \<Rightarrow>
          (case (map_of r ''status'', map_of r ''isAvailable'') of
             (Some (JStr st), Some (JBool b)) \<Rightarrow> (b = (st = ''available''))
           | _ \<Rightarrow> False)
      | _ \<Rightarrow> False)"

fun is_string :: "js_value option \<Rightarrow> bool" where
  "is_string (Some (JStr t)) = True"
| "is_string v = False"

text \<open>
  A \<^verbatim>\<open>GenerateResponseResult\<close> populates exactly one payload: with \<^verbatim>\<open>success\<close> true it has a
  string \<^verbatim>\<open>response\<close> and no \<^verbatim>\<open>error\<close> entry, with \<^verbatim>\<open>success\<close> false a string \<^verbatim>\<open>error\<close>
  and no \<^verbatim>\<open>response\<close> entry.
\<close>

definition exactly_one_payload :: "js_value \<Rightarrow> bool" where
  "exactly_one_payload v =
     (case v of
        JObj r \<Rightarrow>
          (case map_of r ''success'' of
             Some (JBool True) \<Rightarrow> is_string (map_of r ''response'') \<and> map_of r ''error'' = None
           | Some (JBool False) \<Rightarrow> is_string (map_of r ''error'') \<and> map_of r ''response'' = None
           | _ \<Rightarrow> False)
      | _ \<Rightarrow> False)"

text \<open>
  The states in which the model service cannot be used from JavaScript: the module
  object is not usable, the module is the Kotlin stub, or it is the Swift module on a
  platform where the framework is missing or the model is not ready.
\<close>

definition service_unavailable :: "js_module \<Rightarrow> platform \<Rightarrow> bool" where
  "service_unavailable js d =
     (\<not> isModuleAvailable js
      \<or> AppleIntelligenceModule js = Some kotlin_definition
      \<or> (AppleIntelligenceModule js = Some swift_definition
          \<and> (\<not> framework_present d \<or> \<not> model_isAvailable d)))"

section \<open>Basic facts\<close>

lemma swift_table [simp]:
  "map_of swift_definition ''isAvailable'' = Some (Fn0 swift_isAvailable)"
  "map_of swift_definition ''getAvailabilityStatus'' = Some (Fn0 swift_getAvailabilityStatus)"
  "map_of swift_definition ''generateResponse'' = Some (Fn1 swift_generateResponse)"
  "map_of swift_definition ''createSession'' = Some (Fn1opt swift_createSession)"
  "map_of swift_definition ''sendSessionMessage'' = Some (Fn2 swift_sendSessionMessage)"
  "map_of swift_definition ''resetSession'' = Some (Fn1 swift_resetSession)"
  "map_of swift_definition ''endSession'' = Some (Fn1 swift_endSession)"
  by (simp_all add: swift_definition_def)

lemma kotlin_table [simp]:
  "map_of kotlin_definition ''isAvailable'' = Some (Fn0 kotlin_isAvailable)"
  "map_of kotlin_definition ''getAvailabilityStatus'' = Some (Fn0 kotlin_getAvailabilityStatus)"
  "map_of kotlin_definition ''generateResponse'' = Some (Fn1 kotlin_generateResponse)"
  "map_of kotlin_definition ''createSession'' = Some (Fn1opt kotlin_createSession)"
  "map_of kotlin_definition ''sendSessionMessage'' = Some (Fn2 kotlin_sendSessionMessage)"
  "map_of kotlin_definition ''resetSession'' = Some (Fn1 kotlin_resetSession)"
  "map_of kotlin_definition ''endSession'' = None"
  by (simp_all add: kotlin_definition_def)

lemma ready_fields [simp]:
  "framework_present ready_platform"
  "model_isAvailable ready_platform"
  "uuidString ready_platform = ''6F9619FF-8B86-D011-B42D-00C04FC964FF''"
  "bridge_fault ready_platform = None"
  by (simp_all add: ready_platform_def framework_present_def)

lemma not_ready_fields [simp]:
  "framework_present not_ready_platform"
  "\<not> model_isAvailable not_ready_platform"
  "model_availability not_ready_platform = Unavailable ''modelNotReady''"
  "bridge_fault not_ready_platform = None"
  by (simp_all add: not_ready_platform_def ready_platform_def framework_present_def)

lemma old_os_fields [simp]:
  "\<not> framework_present old_os_platform"
  "bridge_fault old_os_platform = None"
  by (simp_all add: old_os_platform_def not_ready_platform_def ready_platform_def
      framework_present_def)

lemma loaded_modules:
  "load_index (Inr (Some swift_definition)) = Inr ios_module"
  "load_index (Inr (Some kotlin_definition)) = Inr android_module"
  by (simp_all add: load_index_def load_AppleIntelligence_def load_AppleIntelligenceModule_def
      is_function_def ios_module_def android_module_def)

lemma empty_store_reachable: "registry_reachable d empty_store"
  by (simp add: registry_reachable_def empty_store_def)

lemma swift_registry_reachable:
  assumes "registry_reachable d s"
  shows "registry_reachable d (snd (swift_isAvailable d s))"
    and "registry_reachable d (snd (swift_getAvailabilityStatus d s))"
    and "registry_reachable d (snd (swift_generateResponse prompt d s))"
    and "registry_reachable d (snd (swift_createSession sysPrompt d s))"
    and "registry_reachable d (snd (swift_sendSessionMessage sessionId message d s))"
    and "registry_reachable d (snd (swift_resetSession sessionId d s))"
    and "registry_reachable d (snd (swift_endSession sessionId d s))"
  using assms
  by (auto simp add: registry_reachable_def swift_isAvailable_def swift_getAvailabilityStatus_def
        swift_generateResponse_def swift_createSession_def swift_sendSessionMessage_def
        swift_resetSession_def swift_endSession_def session_respond_def Let_def
      split: availability.splits sum.splits option.splits)

lemma android_fields [simp]:
  "\<not> framework_present android_platform"
  "bridge_fault android_platform = None"
  by (simp_all add: android_platform_def old_os_platform_def not_ready_platform_def
      ready_platform_def framework_present_def)

lemma unloaded: "load_index (Inr None) = Inr unloaded_module"
  by (simp add: load_index_def load_AppleIntelligence_def load_AppleIntelligenceModule_def
      is_function_def unloaded_module_def)

lemma convert_call_Fn0: "convert_call (Fn0 f) args = Some g \<Longrightarrow> args = [] \<and> g = f"
  by (cases "(Fn0 f, args)" rule: convert_call.cases) auto

lemma convert_call_Fn1: "convert_call (Fn1 f) args = Some g \<Longrightarrow> \<exists>a. args = [JStr a] \<and> g = f a"
  by (cases "(Fn1 f, args)" rule: convert_call.cases) auto

lemma convert_call_Fn1opt:
  "convert_call (Fn1opt f) args = Some g \<Longrightarrow> \<exists>a. g = f a"
  by (cases "(Fn1opt f, args)" rule: convert_call.cases) auto

lemma convert_call_Fn2:
  "convert_call (Fn2 f) args = Some g \<Longrightarrow> \<exists>a b. args = [JStr a, JStr b] \<and> g = f a b"
  by (cases "(Fn2 f, args)" rule: convert_call.cases) auto

section \<open>The capability gate\<close>

text \<open>
  Once the package has been evaluated, \<^verbatim>\<open>isAvailable\<close> never rejects, whatever the module
  object and the platform do, and over the modules of this package it resolves to a
  boolean.
\<close>

lemma isAvailable_never_rejects:
  "\<exists>v s'. isAvailable js d s = (Inr v, s')"
  by (simp add: isAvailable_def split: prod.splits sum.splits)

lemma isAvailable_boolean:
  assumes "AppleIntelligenceModule js \<in> {None, Some swift_definition, Some kotlin_definition}"
  shows "\<exists>b s'. isAvailable js d s = (Inr (JBool b), s')"
proof -
  consider "AppleIntelligenceModule js = None" | "AppleIntelligenceModule js = Some swift_definition"
    | "AppleIntelligenceModule js = Some kotlin_definition"
    using assms by auto
  then show ?thesis
    by cases
      (auto simp add: isAvailable_def call_native_def swift_isAvailable_def kotlin_isAvailable_def
        split: option.splits)
qed

text \<open>
  C1. The claim is that \<^verbatim>\<open>isAvailable()\<close> resolves to a boolean in every platform state,
  the native bridge being entirely absent included. The code does not do that: when
  \<^verbatim>\<open>requireNativeModule\<close> throws, the evaluation of \<^verbatim>\<open>AppleIntelligenceModule.ts\<close> throws,
  so does that of the file importing it and of \<^verbatim>\<open>index.ts\<close>, and the application gets the
  exception instead of \<^verbatim>\<open>false\<close>. The theorem evaluates the package at that input.
\<close>

theorem isAvailable_bridge_absent:
  "load_index (Inl e) = Inl e \<and> imported_isAvailable (Inl e) d s = (Inl e, s)"
  by (simp add: imported_isAvailable_def load_index_def load_AppleIntelligence_def
      load_AppleIntelligenceModule_def)

lemma swift_getAvailabilityStatus_consistent:
  "\<exists>v. swift_getAvailabilityStatus d s = (Inr v, s) \<and> status_consistent v"
  by (simp add: swift_getAvailabilityStatus_def status_consistent_def split: availability.splits)

lemma kotlin_getAvailabilityStatus_consistent:
  "\<exists>v. kotlin_getAvailabilityStatus d s = (Inr v, s) \<and> status_consistent v"
  by (simp add: kotlin_getAvailabilityStatus_def status_consistent_def)

lemma call_native_status:
  assumes "m \<in> {None, Some swift_definition, Some kotlin_definition}"
    and "call_native m ''getAvailabilityStatus'' [] d s = (Inr v, s')"
  shows "status_consistent v"
proof -
  consider "m = None" | "m = Some swift_definition" | "m = Some kotlin_definition"
    using assms(1) by auto
  then show ?thesis
  proof cases
    case 1
    with assms(2) show ?thesis by (simp add: call_native_def)
  next
    case 2
    obtain w where w: "swift_getAvailabilityStatus d (s\<lparr>native_calls := native_calls s @ [''getAvailabilityStatus'']\<rparr>)
        = (Inr w, s\<lparr>native_calls := native_calls s @ [''getAvailabilityStatus'']\<rparr>)" "status_consistent w"
      using swift_getAvailabilityStatus_consistent by blast
    with 2 assms(2) show ?thesis
      by (auto simp add: call_native_def split: option.splits)
  next
    case 3
    obtain w where w: "kotlin_getAvailabilityStatus d (s\<lparr>native_calls := native_calls s @ [''getAvailabilityStatus'']\<rparr>)
        = (Inr w, s\<lparr>native_calls := native_calls s @ [''getAvailabilityStatus'']\<rparr>)" "status_consistent w"
      using kotlin_getAvailabilityStatus_consistent by blast
    with 3 assms(2) show ?thesis
      by (auto simp add: call_native_def split: option.splits)
  qed
qed

text \<open>
  C2. Every status value that \<^verbatim>\<open>getAvailabilityStatus\<close> returns is consistent
  (\<^verbatim>\<open>isAvailable\<close> true exactly when \<^verbatim>\<open>status\<close> is \<^verbatim>\<open>available\<close>): through the JavaScript layer
  over the Swift module, over the Kotlin stub and over no module at all, whatever the
  platform reports and also when the query throws, and directly from either native
  implementation.
\<close>

theorem availability_status_invariant:
  assumes "AppleIntelligenceModule js \<in> {None, Some swift_definition, Some kotlin_definition}"
  shows "(\<exists>v s'. getAvailabilityStatus js d s = (Inr v, s') \<and> status_consistent v)
         \<and> (\<exists>v. swift_getAvailabilityStatus d s = (Inr v, s) \<and> status_consistent v)
         \<and> (\<exists>v. kotlin_getAvailabilityStatus d s = (Inr v, s) \<and> status_consistent v)"
proof -
  have js: "\<exists>v s'. getAvailabilityStatus js d s = (Inr v, s') \<and> status_consistent v"
  proof (cases "isModuleAvailable js")
    case False
    then show ?thesis by (simp add: getAvailabilityStatus_def status_consistent_def)
  next
    case True
    obtain r s' where call: "call_native (AppleIntelligenceModule js) ''getAvailabilityStatus'' [] d s = (r, s')"
      by (cases "call_native (AppleIntelligenceModule js) ''getAvailabilityStatus'' [] d s")
    show ?thesis
    proof (cases r)
      case (Inl e)
      with True call show ?thesis by (simp add: getAvailabilityStatus_def status_consistent_def)
    next
      case (Inr v)
      with call assms have "status_consistent v" using call_native_status by blast
      with True call Inr show ?thesis by (simp add: getAvailabilityStatus_def)
    qed
  qed
  with swift_getAvailabilityStatus_consistent kotlin_getAvailabilityStatus_consistent
  show ?thesis by blast
qed

theorem availability_status_invariant_witness:
  "AppleIntelligenceModule ios_module \<in> {None, Some swift_definition, Some kotlin_definition}
   \<and> getAvailabilityStatus ios_module not_ready_platform empty_store =
       (Inr (JObj [(''status'', JStr ''unavailable''), (''isAvailable'', JBool False),
                   (''reason'', JStr ''modelNotReady''),
                   (''message'', JStr ''Apple Intelligence is not available: modelNotReady'')]),
        \<lparr>sessions = Map.empty, native_calls = [''getAvailabilityStatus'']\<rparr>)
   \<and> (\<exists>v s'. getAvailabilityStatus ios_module not_ready_platform empty_store = (Inr v, s')
              \<and> status_consistent v)"
proof -
  have m: "AppleIntelligenceModule ios_module \<in> {None, Some swift_definition, Some kotlin_definition}"
    by (simp add: ios_module_def)
  have e: "getAvailabilityStatus ios_module not_ready_platform empty_store =
       (Inr (JObj [(''status'', JStr ''unavailable''), (''isAvailable'', JBool False),
                   (''reason'', JStr ''modelNotReady''),
                   (''message'', JStr ''Apple Intelligence is not available: modelNotReady'')]),
        \<lparr>sessions = Map.empty, native_calls = [''getAvailabilityStatus'']\<rparr>)"
    by (simp add: getAvailabilityStatus_def ios_module_def call_native_def
        swift_getAvailabilityStatus_def empty_store_def)
  from availability_status_invariant [OF m, of not_ready_platform empty_store] m e
  show ?thesis by blast
qed

section \<open>Generation\<close>

text \<open>
  C3, as amended. When the module object is usable (\<open>isModuleAvailable\<close>),
  \<^verbatim>\<open>generateResponse\<close> of the empty string and of \<^verbatim>\<open>null\<close> resolves to the failure result
  with the error \<^verbatim>\<open>Prompt must be a non-empty string\<close>, and the store, with its record of
  native calls, is unchanged: the platform is not contacted. When the module object is
  not usable, every prompt gets the failure result \<^verbatim>\<open>Apple Intelligence is not available
  on this device\<close>, again without a native call.
\<close>

theorem generateResponse_blank_prompt:
  "(isModuleAvailable js \<longrightarrow>
      generateResponse js (JStr []) d s =
        (Inr (JObj [(''success'', JBool False),
                    (''error'', JStr ''Prompt must be a non-empty string'')]), s)
      \<and> generateResponse js JNull d s =
        (Inr (JObj [(''success'', JBool False),
                    (''error'', JStr ''Prompt must be a non-empty string'')]), s))
   \<and> (\<not> isModuleAvailable js \<longrightarrow>
      generateResponse js prompt d s =
        (Inr (JObj [(''success'', JBool False),
                    (''error'', JStr ''Apple Intelligence is not available on this device'')]), s))"
proof -
  have falsy: "\<not> js_truthy (JStr [])" "\<not> js_truthy JNull"
    by simp_all
  have blank: "generateResponse js v d s =
        (Inr (JObj [(''success'', JBool False),
                    (''error'', JStr ''Prompt must be a non-empty string'')]), s)"
    if "isModuleAvailable js" and "\<not> js_truthy v" for v
    using that by (simp add: generateResponse_def)
  have gate: "generateResponse js prompt d s =
        (Inr (JObj [(''success'', JBool False),
                    (''error'', JStr ''Apple Intelligence is not available on this device'')]), s)"
    if "\<not> isModuleAvailable js"
    using that by (simp add: generateResponse_def)
  from falsy blank gate show ?thesis by blast
qed

theorem generateResponse_blank_prompt_witness:
  "isModuleAvailable ios_module
   \<and> generateResponse ios_module (JStr []) ready_platform empty_store =
        (Inr (JObj [(''success'', JBool False),
                    (''error'', JStr ''Prompt must be a non-empty string'')]), empty_store)
   \<and> generateResponse ios_module JNull ready_platform empty_store =
        (Inr (JObj [(''success'', JBool False),
                    (''error'', JStr ''Prompt must be a non-empty string'')]), empty_store)
   \<and> \<not> isModuleAvailable unloaded_module
   \<and> generateResponse unloaded_module (JStr ''hi'') ready_platform empty_store =
        (Inr (JObj [(''success'', JBool False),
                    (''error'', JStr ''Apple Intelligence is not available on this device'')]),
         empty_store)"
  using generateResponse_blank_prompt [where js = ios_module and d = ready_platform and s = empty_store]
    generateResponse_blank_prompt [where js = unloaded_module and prompt = "JStr ''hi''"
      and d = ready_platform and s = empty_store]
  by (simp add: ios_module_def unloaded_module_def)

text \<open>
  C3 as stated fails where the module object is not usable: the availability test comes
  first, and the empty string and \<^verbatim>\<open>null\<close> get its error, not the prompt's.
\<close>

theorem generateResponse_unloaded_counterexample:
  "generateResponse unloaded_module (JStr []) ready_platform empty_store =
        (Inr (JObj [(''success'', JBool False),
                    (''error'', JStr ''Apple Intelligence is not available on this device'')]),
         empty_store)
   \<and> generateResponse unloaded_module JNull ready_platform empty_store \<noteq>
        (Inr (JObj [(''success'', JBool False),
                    (''error'', JStr ''Prompt must be a non-empty string'')]), empty_store)"
  by (simp add: generateResponse_def unloaded_module_def)

lemma generateResponse_nonstring:
  "isModuleAvailable js \<Longrightarrow> js_typeof prompt \<noteq> ''string'' \<Longrightarrow>
   generateResponse js prompt d s =
     (Inr (JObj [(''success'', JBool False),
                 (''error'', JStr ''Prompt must be a non-empty string'')]), s)"
  by (simp add: generateResponse_def)

lemma generateResponse_reaches_platform:
  "generateResponse ios_module (JStr ''hi'') ready_platform empty_store =
     (Inr (JObj [(''success'', JBool True), (''response'', JStr ''echo: hi'')]),
      \<lparr>sessions = Map.empty, native_calls = [''generateResponse'']\<rparr>)"
  by (simp add: generateResponse_def ios_module_def call_native_def swift_generateResponse_def
      session_respond_def empty_store_def ready_platform_def framework_present_def)

lemma swift_generateResponse_payload:
  "\<exists>v. swift_generateResponse prompt d s = (Inr v, s) \<and> exactly_one_payload v"
  by (simp add: swift_generateResponse_def session_respond_def exactly_one_payload_def
      split: sum.splits)

lemma swift_sendSessionMessage_payload:
  "\<exists>v s'. swift_sendSessionMessage sessionId message d s = (Inr v, s') \<and> exactly_one_payload v"
  by (simp add: swift_sendSessionMessage_def session_respond_def exactly_one_payload_def
      split: option.splits sum.splits)

lemma kotlin_payload:
  "\<exists>v. kotlin_generateResponse prompt d s = (Inr v, s) \<and> exactly_one_payload v"
  "\<exists>v. kotlin_sendSessionMessage sessionId message d s = (Inr v, s) \<and> exactly_one_payload v"
  by (simp_all add: kotlin_generateResponse_def kotlin_sendSessionMessage_def
      exactly_one_payload_def)

lemma call_native_payload:
  assumes "m \<in> {None, Some swift_definition, Some kotlin_definition}"
    and "name = ''generateResponse'' \<or> name = ''sendSessionMessage''"
    and "call_native m name args d s = (Inr v, s')"
  shows "exactly_one_payload v"
proof -
  let ?t = "s\<lparr>native_calls := native_calls s @ [name]\<rparr>"
  consider "m = None" | "m = Some swift_definition" | "m = Some kotlin_definition"
    using assms(1) by auto
  then show ?thesis
  proof cases
    case 1
    with assms(3) show ?thesis by (simp add: call_native_def)
  next
    case 2
    from assms(2) show ?thesis
    proof
      assume n: "name = ''generateResponse''"
      with 2 assms(3) obtain a where "swift_generateResponse a d ?t = (Inr v, s')"
        by (auto simp add: call_native_def split: option.splits prod.splits sum.splits
            dest!: convert_call_Fn1)
      with swift_generateResponse_payload [of a d ?t] show ?thesis by auto
    next
      assume n: "name = ''sendSessionMessage''"
      with 2 assms(3) obtain a b where "swift_sendSessionMessage a b d ?t = (Inr v, s')"
        by (auto simp add: call_native_def split: option.splits prod.splits sum.splits
            dest!: convert_call_Fn2)
      with swift_sendSessionMessage_payload [of a b d ?t] show ?thesis by auto
    qed
  next
    case 3
    from assms(2) show ?thesis
    proof
      assume n: "name = ''generateResponse''"
      with 3 assms(3) obtain a where "kotlin_generateResponse a d ?t = (Inr v, s')"
        by (auto simp add: call_native_def split: option.splits prod.splits sum.splits
            dest!: convert_call_Fn1)
      with kotlin_payload(1) [of a d ?t] show ?thesis by auto
    next
      assume n: "name = ''sendSessionMessage''"
      with 3 assms(3) obtain a b where "kotlin_sendSessionMessage a b d ?t = (Inr v, s')"
        by (auto simp add: call_native_def split: option.splits prod.splits sum.splits
            dest!: convert_call_Fn2)
      with kotlin_payload(2) [of a b d ?t] show ?thesis by auto
    qed
  qed
qed

text \<open>
  C8. Every result that \<^verbatim>\<open>generateResponse\<close> or \<^verbatim>\<open>sendSessionMessage\<close> produces populates
  exactly one payload: the JavaScript \<^verbatim>\<open>generateResponse\<close> (which always resolves), the
  session's \<^verbatim>\<open>sendMessage\<close> whenever it resolves, and the two native functions of the Swift
  module and of the Kotlin stub.
\<close>

theorem generation_result_one_payload:
  assumes "AppleIntelligenceModule js \<in> {None, Some swift_definition, Some kotlin_definition}"
  shows "(\<exists>v s'. generateResponse js prompt d s = (Inr v, s') \<and> exactly_one_payload v)
         \<and> (\<forall>v s'. sendMessage js session message d s = (Inr v, s') \<longrightarrow> exactly_one_payload v)
         \<and> (\<exists>v s'. swift_generateResponse p d s = (Inr v, s') \<and> exactly_one_payload v)
         \<and> (\<exists>v s'. swift_sendSessionMessage sessionId message d s = (Inr v, s')
                \<and> exactly_one_payload v)
         \<and> (\<exists>v s'. kotlin_generateResponse p d s = (Inr v, s') \<and> exactly_one_payload v)
         \<and> (\<exists>v s'. kotlin_sendSessionMessage sessionId message d s = (Inr v, s')
                \<and> exactly_one_payload v)"
proof -
  have gen: "\<exists>v s'. generateResponse js prompt d s = (Inr v, s') \<and> exactly_one_payload v"
  proof (cases "\<not> isModuleAvailable js \<or> \<not> js_truthy prompt \<or> js_typeof prompt \<noteq> ''string''")
    case True
    then show ?thesis by (auto simp add: generateResponse_def exactly_one_payload_def)
  next
    case False
    obtain r0 s' where call:
      "call_native (AppleIntelligenceModule js) ''generateResponse'' [prompt] d s = (r0, s')"
      by (cases "call_native (AppleIntelligenceModule js) ''generateResponse'' [prompt] d s")
    show ?thesis
    proof (cases r0)
      case (Inl e)
      with False call show ?thesis by (simp add: generateResponse_def exactly_one_payload_def)
    next
      case (Inr v)
      with call assms have "exactly_one_payload v" using call_native_payload by blast
      with False call Inr show ?thesis by (simp add: generateResponse_def)
    qed
  qed
  have send: "exactly_one_payload v" if "sendMessage js session message d s = (Inr v, s')" for v s'
    using that assms call_native_payload unfolding sendMessage_def by blast
  from gen send swift_generateResponse_payload swift_sendSessionMessage_payload kotlin_payload
  show ?thesis by blast
qed

theorem generation_result_one_payload_witness:
  "AppleIntelligenceModule ios_module \<in> {None, Some swift_definition, Some kotlin_definition}
   \<and> sendMessage ios_module (Session (JStr ''s1'')) ''hello'' ready_platform
        \<lparr>sessions = [''s1'' \<mapsto> []], native_calls = []\<rparr> =
       (Inr (JObj [(''success'', JBool True), (''response'', JStr ''echo: hello'')]),
        \<lparr>sessions = [''s1'' \<mapsto> [''hello'']], native_calls = [''sendSessionMessage'']\<rparr>)
   \<and> exactly_one_payload (JObj [(''success'', JBool True), (''response'', JStr ''echo: hello'')])
   \<and> (\<exists>v s'. generateResponse ios_module (JStr ''hi'') ready_platform empty_store = (Inr v, s')
          \<and> exactly_one_payload v)"
proof -
  let ?s = "\<lparr>sessions = [''s1'' \<mapsto> []], native_calls = []\<rparr>"
  have m: "AppleIntelligenceModule ios_module \<in> {None, Some swift_definition, Some kotlin_definition}"
    by (simp add: ios_module_def)
  have r: "respond_to ready_platform [] ''hello'' = Inr ''echo: hello''"
    by (simp add: ready_platform_def)
  have e: "sendMessage ios_module (Session (JStr ''s1'')) ''hello'' ready_platform ?s =
       (Inr (JObj [(''success'', JBool True), (''response'', JStr ''echo: hello'')]),
        \<lparr>sessions = [''s1'' \<mapsto> [''hello'']], native_calls = [''sendSessionMessage'']\<rparr>)"
    using r by (simp add: sendMessage_def ios_module_def call_native_def
        swift_sendSessionMessage_def session_respond_def)
  from generation_result_one_payload [OF m, where d = ready_platform]
  have a: "\<forall>v s'. sendMessage ios_module (Session (JStr ''s1'')) ''hello'' ready_platform ?s = (Inr v, s')
              \<longrightarrow> exactly_one_payload v"
    and b: "\<exists>v s'. generateResponse ios_module (JStr ''hi'') ready_platform empty_store = (Inr v, s')
          \<and> exactly_one_payload v"
    by blast+
  from a e have "exactly_one_payload (JObj [(''success'', JBool True), (''response'', JStr ''echo: hello'')])"
    by blast
  with m e b show ?thesis by blast
qed

section \<open>The session registry\<close>

text \<open>
  C4, as amended. Where the framework is present, \<^verbatim>\<open>sendSessionMessage\<close> for an identifier
  that is not in the registry returns the failure result \<^verbatim>\<open>Session not found. Create a
  new session first.\<close> and leaves the store unchanged; where the framework is not
  present it returns the failure result \<^verbatim>\<open>Foundation Models not available\<close> for every
  identifier. In every case it returns a result and never throws.
\<close>

theorem sendSessionMessage_unknown_session:
  "(framework_present d \<and> sessions s sessionId = None \<longrightarrow>
      swift_sendSessionMessage sessionId message d s =
        (Inr (JObj [(''success'', JBool False),
                    (''error'', JStr ''Session not found. Create a new session first.'')]), s))
   \<and> (\<not> framework_present d \<longrightarrow>
      swift_sendSessionMessage sessionId message d s =
        (Inr (JObj [(''success'', JBool False),
                    (''error'', JStr ''Foundation Models not available'')]), s))
   \<and> (\<exists>v s'. swift_sendSessionMessage sessionId message d s = (Inr v, s'))"
proof -
  have a: "swift_sendSessionMessage sessionId message d s =
        (Inr (JObj [(''success'', JBool False),
                    (''error'', JStr ''Session not found. Create a new session first.'')]), s)"
    if "framework_present d" and "sessions s sessionId = None"
    using that by (simp add: swift_sendSessionMessage_def)
  have b: "swift_sendSessionMessage sessionId message d s =
        (Inr (JObj [(''success'', JBool False),
                    (''error'', JStr ''Foundation Models not available'')]), s)"
    if "\<not> framework_present d"
    using that by (simp add: swift_sendSessionMessage_def)
  have c: "\<exists>v s'. swift_sendSessionMessage sessionId message d s = (Inr v, s')"
    by (simp add: swift_sendSessionMessage_def session_respond_def
        split: option.splits sum.splits)
  from a b c show ?thesis by blast
qed

theorem sendSessionMessage_unknown_session_witness:
  "framework_present ready_platform \<and> sessions empty_store ''never-created'' = None
   \<and> swift_sendSessionMessage ''never-created'' ''hi'' ready_platform empty_store =
        (Inr (JObj [(''success'', JBool False),
                    (''error'', JStr ''Session not found. Create a new session first.'')]),
         empty_store)"
  using sendSessionMessage_unknown_session [of ready_platform empty_store "''never-created''" "''hi''"]
  by (simp add: empty_store_def)

text \<open>
  C4 as stated fails on a platform whose operating system predates the framework: the
  identifier was never created, and the error is the platform's, not
  \<^verbatim>\<open>Session not found\<close>.
\<close>

theorem sendSessionMessage_old_os_counterexample:
  "sessions empty_store ''never-created'' = None
   \<and> swift_sendSessionMessage ''never-created'' ''hi'' old_os_platform empty_store =
        (Inr (JObj [(''success'', JBool False),
                    (''error'', JStr ''Foundation Models not available'')]), empty_store)
   \<and> swift_sendSessionMessage ''never-created'' ''hi'' old_os_platform empty_store \<noteq>
        (Inr (JObj [(''success'', JBool False),
                    (''error'', JStr ''Session not found. Create a new session first.'')]),
         empty_store)"
  by (simp add: swift_sendSessionMessage_def empty_store_def)

text \<open>
  C5. For every session identifier and every reachable registry, \<^verbatim>\<open>resetSession\<close>
  resolves and leaves the set of registered identifiers as it was: a registered
  identifier keeps its place and gets the handle with no turns, the other entries are
  untouched, and for an identifier that is not registered the store does not change at
  all.
\<close>

theorem resetSession_frame:
  assumes "registry_reachable d s"
  shows "swift_resetSession sessionId d s =
           (Inr JUndefined,
            if sessionId \<in> dom (sessions s)
            then s\<lparr>sessions := (sessions s)(sessionId \<mapsto> [])\<rparr> else s)
         \<and> dom (sessions (snd (swift_resetSession sessionId d s))) = dom (sessions s)"
proof (cases "framework_present d")
  case True
  show ?thesis
  proof (cases "sessions s sessionId")
    case None
    with True show ?thesis by (simp add: swift_resetSession_def dom_def)
  next
    case (Some old)
    with True show ?thesis by (auto simp add: swift_resetSession_def)
  qed
next
  case False
  with assms have "sessions s = Map.empty" by (simp add: registry_reachable_def)
  with False show ?thesis by (simp add: swift_resetSession_def)
qed

theorem resetSession_frame_witness:
  "registry_reachable ready_platform
     \<lparr>sessions = [''s1'' \<mapsto> [''hello''], ''s2'' \<mapsto> [''hi'']], native_calls = []\<rparr>
   \<and> swift_resetSession ''s1'' ready_platform
       \<lparr>sessions = [''s1'' \<mapsto> [''hello''], ''s2'' \<mapsto> [''hi'']], native_calls = []\<rparr>
       = (Inr JUndefined, \<lparr>sessions = [''s1'' \<mapsto> [], ''s2'' \<mapsto> [''hi'']], native_calls = []\<rparr>)
   \<and> swift_resetSession ''s3'' ready_platform
       \<lparr>sessions = [''s1'' \<mapsto> [''hello''], ''s2'' \<mapsto> [''hi'']], native_calls = []\<rparr>
       = (Inr JUndefined,
          \<lparr>sessions = [''s1'' \<mapsto> [''hello''], ''s2'' \<mapsto> [''hi'']], native_calls = []\<rparr>)"
proof -
  let ?s = "\<lparr>sessions = [''s1'' \<mapsto> [''hello''], ''s2'' \<mapsto> [''hi'']], native_calls = []\<rparr>"
  have r: "registry_reachable ready_platform ?s" by (simp add: registry_reachable_def)
  have "[''s1'' \<mapsto> [''hello''], ''s2'' \<mapsto> [''hi''], ''s1'' \<mapsto> []]
        = [''s1'' \<mapsto> [], ''s2'' \<mapsto> [''hi'']]"
    by (rule ext) simp
  with r resetSession_frame [OF r, of "''s1''"] resetSession_frame [OF r, of "''s3''"]
  show ?thesis by simp
qed

text \<open>
  C9. On a platform where the framework is present and the model is available,
  \<^verbatim>\<open>createSession\<close> with a non-empty system prompt takes the identifier from \<^verbatim>\<open>UUID()\<close>,
  starts from the handle with no turns and sends it one turn, the text \<^verbatim>\<open>System: \<close>
  followed by the prompt; the identifier is returned only when that turn has been
  answered, and the handle registered under it then holds exactly that turn. Without a
  system prompt, or with the empty one, the handle is registered with no turn sent and
  the runtime is not consulted.
\<close>

theorem createSession_seeding:
  assumes "framework_present d" and "model_isAvailable d"
  shows "(p \<noteq> [] \<longrightarrow>
            swift_createSession (Some p) d s =
              (case respond_to d [] (''System: '' @ p) of
                 Inr content \<Rightarrow>
                   (Inr (JStr (uuidString d)),
                    s\<lparr>sessions := (sessions s)(uuidString d \<mapsto> [''System: '' @ p])\<rparr>)
               | Inl localizedDescription \<Rightarrow> (Inl (RespondError localizedDescription), s)))
         \<and> swift_createSession None d s =
              (Inr (JStr (uuidString d)), s\<lparr>sessions := (sessions s)(uuidString d \<mapsto> [])\<rparr>)
         \<and> swift_createSession (Some []) d s =
              (Inr (JStr (uuidString d)), s\<lparr>sessions := (sessions s)(uuidString d \<mapsto> [])\<rparr>)"
proof -
  have none: "swift_createSession None d s =
      (Inr (JStr (uuidString d)), s\<lparr>sessions := (sessions s)(uuidString d \<mapsto> [])\<rparr>)"
    using assms by (simp add: swift_createSession_def Let_def)
  have blank: "swift_createSession (Some []) d s =
      (Inr (JStr (uuidString d)), s\<lparr>sessions := (sessions s)(uuidString d \<mapsto> [])\<rparr>)"
    using assms by (simp add: swift_createSession_def Let_def)
  have seed: "swift_createSession (Some p) d s =
      (case respond_to d [] (''System: '' @ p) of
         Inr content \<Rightarrow>
           (Inr (JStr (uuidString d)),
            s\<lparr>sessions := (sessions s)(uuidString d \<mapsto> [''System: '' @ p])\<rparr>)
       | Inl localizedDescription \<Rightarrow> (Inl (RespondError localizedDescription), s))"
    if "p \<noteq> []"
    using assms that
    by (simp add: swift_createSession_def session_respond_def Let_def split: sum.splits)
  from none blank seed show ?thesis by blast
qed

theorem createSession_seeding_witness:
  "framework_present ready_platform \<and> model_isAvailable ready_platform
   \<and> swift_createSession (Some ''Be brief'') ready_platform empty_store =
       (Inr (JStr ''6F9619FF-8B86-D011-B42D-00C04FC964FF''),
        \<lparr>sessions = [''6F9619FF-8B86-D011-B42D-00C04FC964FF'' \<mapsto> [''System: Be brief'']],
         native_calls = []\<rparr>)
   \<and> swift_createSession None ready_platform empty_store =
       (Inr (JStr ''6F9619FF-8B86-D011-B42D-00C04FC964FF''),
        \<lparr>sessions = [''6F9619FF-8B86-D011-B42D-00C04FC964FF'' \<mapsto> []], native_calls = []\<rparr>)"
proof -
  have r: "respond_to ready_platform [] (''System: '' @ ''Be brief'') = Inr ''echo: System: Be brief''"
    by (simp add: ready_platform_def)
  from createSession_seeding [of ready_platform "''Be brief''" empty_store] r
  show ?thesis by (simp add: empty_store_def)
qed

text \<open>
  C10. When the turn that seeds the system prompt fails, \<^verbatim>\<open>createSession\<close> throws the
  runtime's error and the store is exactly what it was: the handle is entered into the
  registry only after the turn has succeeded. Through the JavaScript layer the promise
  rejects, and the only change to the store is the record of the native call.
\<close>

theorem createSession_atomic:
  assumes "framework_present d" and "model_isAvailable d" and "p \<noteq> []"
    and "respond_to d [] (''System: '' @ p) = Inl localizedDescription"
  shows "swift_createSession (Some p) d s = (Inl (RespondError localizedDescription), s)
         \<and> (isModuleAvailable js \<and> AppleIntelligenceModule js = Some swift_definition
              \<and> bridge_fault d = None \<longrightarrow>
            createSession js (Some \<lparr>systemPrompt = Some p\<rparr>) d s =
              (Inl (JError (''Failed to create session: ''
                     @ error_message (rejection d (RespondError localizedDescription))
                         ''Unknown error'')),
               s\<lparr>native_calls := native_calls s @ [''createSession'']\<rparr>))"
proof -
  have native: "swift_createSession (Some p) d t = (Inl (RespondError localizedDescription), t)" for t
    using assms by (simp add: swift_createSession_def session_respond_def Let_def)
  have "createSession js (Some \<lparr>systemPrompt = Some p\<rparr>) d s =
          (Inl (JError (''Failed to create session: ''
                 @ error_message (rejection d (RespondError localizedDescription))
                     ''Unknown error'')),
           s\<lparr>native_calls := native_calls s @ [''createSession'']\<rparr>)"
    if "isModuleAvailable js" and "AppleIntelligenceModule js = Some swift_definition"
      and "bridge_fault d = None"
    using that native
    by (simp add: createSession_def call_native_def options_systemPrompt_def)
  with native show ?thesis by blast
qed

theorem createSession_atomic_witness:
  "framework_present ready_platform \<and> model_isAvailable ready_platform \<and> ''refuse'' \<noteq> []
   \<and> respond_to ready_platform [] (''System: '' @ ''refuse'') = Inl ''The request was refused''
   \<and> swift_createSession (Some ''refuse'') ready_platform empty_store
       = (Inl (RespondError ''The request was refused''), empty_store)
   \<and> createSession ios_module (Some \<lparr>systemPrompt = Some ''refuse''\<rparr>) ready_platform empty_store
       = (Inl (JError ''Failed to create session: The request was refused''),
          \<lparr>sessions = Map.empty, native_calls = [''createSession'']\<rparr>)"
proof -
  have r: "respond_to ready_platform [] (''System: '' @ ''refuse'') = Inl ''The request was refused''"
    by (simp add: ready_platform_def)
  have j: "rejection ready_platform (RespondError ''The request was refused'')
           = JError ''The request was refused''"
    by (simp add: ready_platform_def)
  from createSession_atomic
         [of ready_platform "''refuse''" "''The request was refused''" empty_store ios_module] r j
  show ?thesis by (simp add: ios_module_def empty_store_def)
qed

section \<open>Failure signalling\<close>

lemma generateResponse_never_rejects:
  "\<exists>v s'. generateResponse js prompt d s = (Inr v, s')"
  by (simp add: generateResponse_def split: prod.splits sum.splits)

lemma swift_generateResponse_unavailable:
  assumes "\<not> framework_present d \<or> \<not> model_isAvailable d"
  shows "\<exists>r. swift_generateResponse p d t = (Inr (JObj r), t) \<and> map_of r ''success'' = Some (JBool False)"
  using assms by (auto simp add: swift_generateResponse_def)

lemma swift_createSession_unavailable:
  assumes "\<not> framework_present d \<or> \<not> model_isAvailable d"
  shows "\<exists>e. swift_createSession p d t = (Inl e, t)"
  using assms by (auto simp add: swift_createSession_def)

lemma createSession_rejects_when:
  assumes "\<And>args t. \<exists>e t'. call_native (AppleIntelligenceModule js) ''createSession'' args d t = (Inl e, t')
              \<and> sessions t' = sessions t"
  shows "\<exists>msg s'. createSession js options d s = (Inl (JError msg), s') \<and> sessions s' = sessions s"
proof (cases "isModuleAvailable js")
  case False
  then show ?thesis by (simp add: createSession_def)
next
  case True
  obtain e t' where "call_native (AppleIntelligenceModule js) ''createSession''
      [options_systemPrompt options] d s = (Inl e, t')" "sessions t' = sessions s"
    using assms by blast
  with True show ?thesis by (simp add: createSession_def)
qed

lemma call_native_createSession_kotlin:
  "\<exists>e t'. call_native (Some kotlin_definition) ''createSession'' args d t = (Inl e, t')
     \<and> sessions t' = sessions t"
  by (auto simp add: call_native_def kotlin_createSession_def
      split: option.splits dest!: convert_call_Fn1opt)

lemma call_native_createSession_swift:
  assumes "\<not> framework_present d \<or> \<not> model_isAvailable d"
  shows "\<exists>e t'. call_native (Some swift_definition) ''createSession'' args d t = (Inl e, t')
     \<and> sessions t' = sessions t"
proof (cases "bridge_fault d")
  case (Some e)
  then show ?thesis by (simp add: call_native_def)
next
  case None
  show ?thesis
  proof (cases "convert_call (Fn1opt swift_createSession) args")
    case cNone: None
    with None show ?thesis by (simp add: call_native_def)
  next
    case (Some g)
    then obtain a where g: "g = swift_createSession a" using convert_call_Fn1opt by blast
    obtain e where "swift_createSession a d (t\<lparr>native_calls := native_calls t @ [''createSession'']\<rparr>)
        = (Inl e, t\<lparr>native_calls := native_calls t @ [''createSession'']\<rparr>)"
      using swift_createSession_unavailable [OF assms] by blast
    with None Some g show ?thesis by (simp add: call_native_def)
  qed
qed

lemma call_native_generateResponse_kotlin:
  assumes "call_native (Some kotlin_definition) ''generateResponse'' args d t = (Inr v, t')"
  shows "\<exists>r. v = JObj r \<and> map_of r ''success'' = Some (JBool False)"
  using assms
  by (auto simp add: call_native_def kotlin_generateResponse_def
      split: option.splits dest!: convert_call_Fn1)

lemma call_native_generateResponse_swift:
  assumes "\<not> framework_present d \<or> \<not> model_isAvailable d"
    and "call_native (Some swift_definition) ''generateResponse'' args d t = (Inr v, t')"
  shows "\<exists>r. v = JObj r \<and> map_of r ''success'' = Some (JBool False)"
proof -
  from assms(2) obtain a where "bridge_fault d = None"
    and run: "swift_generateResponse a d (t\<lparr>native_calls := native_calls t @ [''generateResponse'']\<rparr>) = (Inr v, t')"
    by (auto simp add: call_native_def split: option.splits prod.splits sum.splits
        dest!: convert_call_Fn1)
  with swift_generateResponse_unavailable
         [OF assms(1), of a "t\<lparr>native_calls := native_calls t @ [''generateResponse'']\<rparr>"]
  show ?thesis by auto
qed

lemma generateResponse_fails_when:
  assumes "\<And>args t v t'. call_native (AppleIntelligenceModule js) ''generateResponse'' args d t = (Inr v, t')
             \<Longrightarrow> \<exists>r. v = JObj r \<and> map_of r ''success'' = Some (JBool False)"
  shows "\<exists>r s'. generateResponse js prompt d s = (Inr (JObj r), s')
            \<and> map_of r ''success'' = Some (JBool False)"
proof (cases "\<not> isModuleAvailable js \<or> \<not> js_truthy prompt \<or> js_typeof prompt \<noteq> ''string''")
  case True
  then show ?thesis by (auto simp add: generateResponse_def)
next
  case False
  obtain r0 s' where call: "call_native (AppleIntelligenceModule js) ''generateResponse'' [prompt] d s = (r0, s')"
    by (cases "call_native (AppleIntelligenceModule js) ''generateResponse'' [prompt] d s")
  show ?thesis
  proof (cases r0)
    case (Inl e)
    with False call show ?thesis by (simp add: generateResponse_def)
  next
    case (Inr v)
    with call assms obtain r where "v = JObj r" "map_of r ''success'' = Some (JBool False)" by blast
    with False call Inr show ?thesis by (simp add: generateResponse_def)
  qed
qed

text \<open>
  C7. When the service cannot be used, \<^verbatim>\<open>createSession\<close> rejects with an \<^verbatim>\<open>Error\<close> and adds
  nothing to the registry, whereas \<^verbatim>\<open>generateResponse\<close> in the same state resolves to a
  result whose \<^verbatim>\<open>success\<close> is false, and the native \<^verbatim>\<open>sendSessionMessage\<close> of either
  implementation returns a result and never throws.
\<close>

theorem createSession_alone_rejects:
  assumes "service_unavailable js d"
  shows "(\<exists>msg s'. createSession js options d s = (Inl (JError msg), s') \<and> sessions s' = sessions s)
         \<and> (\<exists>r s'. generateResponse js prompt d s = (Inr (JObj r), s')
                    \<and> map_of r ''success'' = Some (JBool False))
         \<and> (\<exists>v s'. swift_sendSessionMessage sessionId message d s = (Inr v, s'))
         \<and> (\<exists>v s'. kotlin_sendSessionMessage sessionId message d s = (Inr v, s'))"
proof -
  have send: "\<exists>v s'. swift_sendSessionMessage sessionId message d s = (Inr v, s')"
    by (simp add: swift_sendSessionMessage_def session_respond_def split: option.splits sum.splits)
  have ksend: "\<exists>v s'. kotlin_sendSessionMessage sessionId message d s = (Inr v, s')"
    by (simp add: kotlin_sendSessionMessage_def)
  consider (absent) "\<not> isModuleAvailable js"
    | (kotlin) "AppleIntelligenceModule js = Some kotlin_definition"
    | (swift) "AppleIntelligenceModule js = Some swift_definition"
        "\<not> framework_present d \<or> \<not> model_isAvailable d"
    using assms by (auto simp add: service_unavailable_def)
  then have "(\<exists>msg s'. createSession js options d s = (Inl (JError msg), s') \<and> sessions s' = sessions s)
         \<and> (\<exists>r s'. generateResponse js prompt d s = (Inr (JObj r), s')
                    \<and> map_of r ''success'' = Some (JBool False))"
  proof cases
    case absent
    then show ?thesis by (simp add: createSession_def generateResponse_def)
  next
    case kotlin
    then show ?thesis
      using createSession_rejects_when [of js d] generateResponse_fails_when [of js d]
        call_native_createSession_kotlin call_native_generateResponse_kotlin
      by metis
  next
    case swift
    then show ?thesis
      using createSession_rejects_when [of js d] generateResponse_fails_when [of js d]
        call_native_createSession_swift [OF swift(2)]
        call_native_generateResponse_swift [OF swift(2)]
      by metis
  qed
  with send ksend show ?thesis by blast
qed

theorem createSession_alone_rejects_witness:
  "service_unavailable ios_module not_ready_platform
   \<and> createSession ios_module None not_ready_platform empty_store =
       (Inl (JError ''Failed to create session: Apple Intelligence is not available''),
        \<lparr>sessions = Map.empty, native_calls = [''createSession'']\<rparr>)
   \<and> generateResponse ios_module (JStr ''hi'') not_ready_platform empty_store =
       (Inr (JObj [(''success'', JBool False),
                   (''error'', JStr ''Apple Intelligence is not available on this device'')]),
        \<lparr>sessions = Map.empty, native_calls = [''generateResponse'']\<rparr>)
   \<and> (\<exists>msg s'. createSession ios_module None not_ready_platform empty_store = (Inl (JError msg), s')
          \<and> sessions s' = sessions empty_store)"
proof -
  have u: "service_unavailable ios_module not_ready_platform"
    by (simp add: service_unavailable_def ios_module_def)
  have r: "rejection not_ready_platform (NSError ''AppleIntelligence'' 1 ''Apple Intelligence is not available'')
      = JError ''Apple Intelligence is not available''"
    by (simp add: not_ready_platform_def ready_platform_def)
  have c: "createSession ios_module None not_ready_platform empty_store =
       (Inl (JError ''Failed to create session: Apple Intelligence is not available''),
        \<lparr>sessions = Map.empty, native_calls = [''createSession'']\<rparr>)"
    using r by (simp add: createSession_def ios_module_def call_native_def options_systemPrompt_def
        swift_createSession_def empty_store_def)
  have g: "generateResponse ios_module (JStr ''hi'') not_ready_platform empty_store =
       (Inr (JObj [(''success'', JBool False),
                   (''error'', JStr ''Apple Intelligence is not available on this device'')]),
        \<lparr>sessions = Map.empty, native_calls = [''generateResponse'']\<rparr>)"
    by (simp add: generateResponse_def ios_module_def call_native_def
        swift_generateResponse_def empty_store_def)
  from createSession_alone_rejects [OF u, of None empty_store] u c g
  show ?thesis by blast
qed

section \<open>What the stub answers\<close>

text \<open>
  C6, as amended. The stub registers the six functions that the TypeScript declaration
  of the module lists, and through the bridge each gives the fixed answer of an
  unsupported platform in its own shape: \<^verbatim>\<open>false\<close>, the status \<^verbatim>\<open>unsupported\<close>, a failure
  result, a thrown exception for \<^verbatim>\<open>createSession\<close>, a failure result, and nothing for
  \<^verbatim>\<open>resetSession\<close>. None of them touches the registry.
\<close>

theorem kotlin_stub_answers:
  assumes "bridge_fault d = None"
  shows "map fst kotlin_definition =
           [''isAvailable'', ''getAvailabilityStatus'', ''generateResponse'', ''createSession'',
            ''sendSessionMessage'', ''resetSession'']
    \<and> call_native (Some kotlin_definition) ''isAvailable'' [] d s =
        (Inr (JBool False), s\<lparr>native_calls := native_calls s @ [''isAvailable'']\<rparr>)
    \<and> call_native (Some kotlin_definition) ''getAvailabilityStatus'' [] d s =
        (Inr (JObj [(''status'', JStr ''unsupported''), (''isAvailable'', JBool False),
                    (''message'', JStr ''Apple Intelligence is only available on iOS devices'')]),
         s\<lparr>native_calls := native_calls s @ [''getAvailabilityStatus'']\<rparr>)
    \<and> call_native (Some kotlin_definition) ''generateResponse'' [JStr prompt] d s =
        (Inr (JObj [(''success'', JBool False),
                    (''error'', JStr ''Apple Intelligence is only available on iOS devices'')]),
         s\<lparr>native_calls := native_calls s @ [''generateResponse'']\<rparr>)
    \<and> call_native (Some kotlin_definition) ''createSession'' [options_systemPrompt options] d s =
        (Inl (rejection d (KotlinException ''Apple Intelligence is only available on iOS devices'')),
         s\<lparr>native_calls := native_calls s @ [''createSession'']\<rparr>)
    \<and> call_native (Some kotlin_definition) ''sendSessionMessage'' [JStr sessionId, JStr message] d s =
        (Inr (JObj [(''success'', JBool False),
                    (''error'', JStr ''Apple Intelligence is only available on iOS devices'')]),
         s\<lparr>native_calls := native_calls s @ [''sendSessionMessage'']\<rparr>)
    \<and> call_native (Some kotlin_definition) ''resetSession'' [JStr sessionId] d s =
        (Inr JUndefined, s\<lparr>native_calls := native_calls s @ [''resetSession'']\<rparr>)"
proof -
  have names: "map fst kotlin_definition =
           [''isAvailable'', ''getAvailabilityStatus'', ''generateResponse'', ''createSession'',
            ''sendSessionMessage'', ''resetSession'']"
    by (simp add: kotlin_definition_def)
  have create: "call_native (Some kotlin_definition) ''createSession'' [options_systemPrompt options] d s =
        (Inl (rejection d (KotlinException ''Apple Intelligence is only available on iOS devices'')),
         s\<lparr>native_calls := native_calls s @ [''createSession'']\<rparr>)"
    using assms
    by (simp add: call_native_def options_systemPrompt_def kotlin_createSession_def
        split: option.splits)
  from assms names create show ?thesis
    by (simp add: call_native_def kotlin_isAvailable_def kotlin_getAvailabilityStatus_def
        kotlin_generateResponse_def kotlin_sendSessionMessage_def kotlin_resetSession_def)
qed

theorem kotlin_stub_answers_witness:
  "bridge_fault android_platform = None
   \<and> isAvailable android_module android_platform empty_store =
       (Inr (JBool False), \<lparr>sessions = Map.empty, native_calls = [''isAvailable'']\<rparr>)
   \<and> createSession android_module None android_platform empty_store =
       (Inl (JError ''Failed to create session: Apple Intelligence is only available on iOS devices''),
        \<lparr>sessions = Map.empty, native_calls = [''createSession'']\<rparr>)"
proof -
  have r: "rejection android_platform (KotlinException ''Apple Intelligence is only available on iOS devices'')
      = JError ''Apple Intelligence is only available on iOS devices''"
    by (simp add: android_platform_def old_os_platform_def not_ready_platform_def ready_platform_def)
  from kotlin_stub_answers [of android_platform empty_store _ None] r
  show ?thesis
    by (simp add: isAvailable_def createSession_def android_module_def empty_store_def)
qed

text \<open>
  C6 as stated fails for \<^verbatim>\<open>endSession\<close>: the Swift module registers it, the stub does not,
  and a call to it through the stub is a call to a function that does not exist.
\<close>

theorem kotlin_stub_endSession_counterexample:
  "map_of kotlin_definition ''endSession'' = None
   \<and> map_of swift_definition ''endSession'' = Some (Fn1 swift_endSession)
   \<and> call_native (Some kotlin_definition) ''endSession'' [JStr ''s1''] android_platform empty_store =
       (Inl (JError ''TypeError: not a function''), empty_store)"
  by (simp add: call_native_def)

end
